theory Spec2Isabelle
  imports Main
begin

section \<open>The HTTP response writer\<close>

text \<open>
  The handlers of \<^verbatim>\<open>server.go\<close> never return a response: they mutate the response
  writer of the request context (\<^verbatim>\<open>c.Response()\<close>). The writer is a record that every
  operation takes and returns. Strings are byte lists, as Go's are.

  The writer's own operations belong to the web framework and to \<^verbatim>\<open>net/http\<close>, which the
  server imports. They are written out here as those libraries behave, because what the
  server answers depends on them:
  \<^item> \<^verbatim>\<open>WriteHeader\<close> sets the status once; on a committed response it changes nothing; on an
    uncommitted one \<^verbatim>\<open>net/http\<close> panics for a code outside 100..999;
  \<^item> \<^verbatim>\<open>Write\<close> commits the response with status 200 when nothing was committed before,
    and then appends the bytes, committed or not, unless the status is one that has no
    body (1xx, 204, 304), for which \<^verbatim>\<open>net/http\<close> refuses them;
  \<^item> \<^verbatim>\<open>Header().Set\<close> replaces the value stored under a header name.

  A panic under a handler ends the request: nothing more is written, and \<^verbatim>\<open>net/http\<close>
  closes the connection. The field \<open>Panicked\<close> of the response records it.
\<close>

datatype panic = NilPointerDereference | InvalidWriteHeaderCode int

definition LF :: string where
  "LF = [CHR 0x0A]"

record Response =
  Status :: int
  Committed :: bool
  Header :: "string \<rightharpoonup> string"
  Body :: string
  Panicked :: "panic option"

text \<open>
  The response of a request no handler has touched yet. The framework resets the status
  to 200 for every request, which is also what the client receives when a handler
  returns without writing.
\<close>

definition fresh_response :: Response where
  "fresh_response =
     \<lparr>Status = 200, Committed = False, Header = Map.empty, Body = [], Panicked = None\<rparr>"

definition Header_Set :: "string \<Rightarrow> string \<Rightarrow> Response \<Rightarrow> Response" where
  "Header_Set k v r = r\<lparr>Header := (Header r)(k \<mapsto> v)\<rparr>"

text \<open>The two checks of \<^verbatim>\<open>net/http\<close>, under the names they have there.\<close>

definition checkWriteHeaderCode :: "int \<Rightarrow> panic option" where
  "checkWriteHeaderCode code =
     (if code < 100 \<or> 999 < code then Some (InvalidWriteHeaderCode code) else None)"

definition bodyAllowedForStatus :: "int \<Rightarrow> bool" where
  "bodyAllowedForStatus status =
     (if 100 \<le> status \<and> status \<le> 199 then False
      else if status = 204 then False
      else if status = 304 then False
      else True)"

definition WriteHeader :: "int \<Rightarrow> Response \<Rightarrow> panic + Response" where
  "WriteHeader code r =
     (if Committed r then Inr r
      else case checkWriteHeaderCode code of
             Some p \<Rightarrow> Inl p
           | None \<Rightarrow> Inr (r\<lparr>Status := code, Committed := True\<rparr>))"

definition Write :: "string \<Rightarrow> Response \<Rightarrow> Response" where
  "Write b r =
     (case (if \<not> Committed r then WriteHeader 200 r else Inr r) of
        Inl p \<Rightarrow> r\<lparr>Panicked := Some p\<rparr>
      | Inr r' \<Rightarrow> if bodyAllowedForStatus (Status r') then r'\<lparr>Body := Body r' @ b\<rparr> else r')"

text \<open>\<^verbatim>\<open>c.NoContent(code)\<close>: a status and no body.\<close>

definition NoContent :: "int \<Rightarrow> Response \<Rightarrow> Response" where
  "NoContent code r =
     (case WriteHeader code r of Inl p \<Rightarrow> r\<lparr>Panicked := Some p\<rparr> | Inr r' \<Rightarrow> r')"

text \<open>
  \<^verbatim>\<open>http.Error(w, msg, code)\<close>: two headers, the status, then the message printed with
  \<^verbatim>\<open>Fprintln\<close>, that is followed by a line feed.
\<close>

definition http_Error :: "Response \<Rightarrow> string \<Rightarrow> int \<Rightarrow> Response" where
  "http_Error w msg code =
     (let w1 = Header_Set ''Content-Type'' ''text/plain; charset=utf-8'' w;
          w2 = Header_Set ''X-Content-Type-Options'' ''nosniff'' w1
      in case WriteHeader code w2 of
           Inl p \<Rightarrow> w2\<lparr>Panicked := Some p\<rparr>
         | Inr w3 \<Rightarrow> Write (msg @ LF) w3)"

text \<open>\<^verbatim>\<open>http.StatusText\<close>: a lookup in a table, the empty string for an unknown code.\<close>

definition statusText :: "(int \<times> string) list" where
  "statusText =
     [(100, ''Continue''), (101, ''Switching Protocols''), (102, ''Processing''),
      (200, ''OK''), (201, ''Created''), (202, ''Accepted''),
      (203, ''Non-Authoritative Information''), (204, ''No Content''),
      (205, ''Reset Content''), (206, ''Partial Content''), (207, ''Multi-Status''),
      (208, ''Already Reported''), (226, ''IM Used''),
      (300, ''Multiple Choices''), (301, ''Moved Permanently''), (302, ''Found''),
      (303, ''See Other''), (304, ''Not Modified''), (305, ''Use Proxy''),
      (307, ''Temporary Redirect''), (308, ''Permanent Redirect''),
      (400, ''Bad Request''), (401, ''Unauthorized''), (402, ''Payment Required''),
      (403, ''Forbidden''), (404, ''Not Found''), (405, ''Method Not Allowed''),
      (406, ''Not Acceptable''), (407, ''Proxy Authentication Required''),
      (408, ''Request Timeout''), (409, ''Conflict''), (410, ''Gone''),
      (411, ''Length Required''), (412, ''Precondition Failed''),
      (413, ''Request Entity Too Large''), (414, ''Request URI Too Long''),
      (415, ''Unsupported Media Type''), (416, ''Requested Range Not Satisfiable''),
      (417, ''Expectation Failed''), (418, ''I'' @ [CHR 0x27] @ ''m a teapot''),
      (422, ''Unprocessable Entity''), (423, ''Locked''), (424, ''Failed Dependency''),
      (426, ''Upgrade Required''), (428, ''Precondition Required''),
      (429, ''Too Many Requests''), (431, ''Request Header Fields Too Large''),
      (451, ''Unavailable For Legal Reasons''),
      (500, ''Internal Server Error''), (501, ''Not Implemented''),
      (502, ''Bad Gateway''), (503, ''Service Unavailable''),
      (504, ''Gateway Timeout''), (505, ''HTTP Version Not Supported''),
      (506, ''Variant Also Negotiates''), (507, ''Insufficient Storage''),
      (508, ''Loop Detected''), (510, ''Not Extended''),
      (511, ''Network Authentication Required'')]"

definition StatusText :: "int \<Rightarrow> string" where
  "StatusText code = (case map_of statusText code of Some s \<Rightarrow> s | None \<Rightarrow> [])"

section \<open>Error values\<close>

text \<open>
  A Go \<^verbatim>\<open>error\<close> that reaches the error handler is non-nil (the framework calls the
  handler only then) and has exactly one dynamic type. The type switch of
  \<^verbatim>\<open>httpErrorHandler\<close> tells four of them apart:
  \<^item> \<^verbatim>\<open>*kubeErrors.StatusError\<close>, of which only \<^verbatim>\<open>Status()\<close> is read: the status object
    of the orchestration API, of type \<open>'s\<close>;
  \<^item> \<^verbatim>\<open>*errors.ErrorResponse\<close>, of type \<open>'r\<close>;
  \<^item> \<^verbatim>\<open>*echo.HTTPError\<close>, with its \<^verbatim>\<open>Code\<close> and its \<^verbatim>\<open>Message\<close>;
  \<^item> any other error, of which only the text of \<^verbatim>\<open>Error()\<close> is read.
\<close>

datatype ('s, 'r) go_error =
    StatusError 's
  | ErrorResponseError 'r
  | HTTPError int string
  | OtherError string

text \<open>\<^verbatim>\<open>echo.NewHTTPError(code, message)\<close>.\<close>

definition NewHTTPError :: "int \<Rightarrow> string \<Rightarrow> ('s, 'r) go_error" where
  "NewHTTPError code message = HTTPError code message"

text \<open>The values handed to \<^verbatim>\<open>c.JSON\<close>.\<close>

datatype ('s, 'r) json_value = JStatus 's | JErrorResponse 'r

text \<open>
  What the server takes from packages that are not part of \<^verbatim>\<open>server.go\<close>: the JSON
  encoding that \<^verbatim>\<open>c.JSON\<close> applies to a value, the two standard error bodies of the
  \<^verbatim>\<open>errors\<close> package, the status code an \<^verbatim>\<open>ErrorResponse\<close> carries, and the text that the
  \<^verbatim>\<open>Error()\<close> method of an \<^verbatim>\<open>HTTPError\<close> makes of its code and message (the message itself
  in some versions of the framework, a line naming both in others).
\<close>

record ('s, 'r) deps =
  marshal :: "('s, 'r) json_value \<Rightarrow> string"
  errors_NotFound :: "string \<Rightarrow> 'r"
  errors_MethodNotAllowed :: "string \<Rightarrow> 'r"
  response_status :: "'r \<Rightarrow> int"
  HTTPError_Error :: "int \<Rightarrow> string \<Rightarrow> string"

text \<open>
  \<^verbatim>\<open>c.JSON(code, v)\<close>: the JSON content type, the status, then the encoded value.
\<close>

definition ctx_JSON :: "('s, 'r) deps \<Rightarrow> int \<Rightarrow> ('s, 'r) json_value \<Rightarrow> Response \<Rightarrow> Response" where
  "ctx_JSON d code v r =
     (let r1 = Header_Set ''Content-Type'' ''application/json; charset=UTF-8'' r
      in case WriteHeader code r1 of
           Inl p \<Rightarrow> r1\<lparr>Panicked := Some p\<rparr>
         | Inr r2 \<Rightarrow> Write (marshal d v) r2)"

text \<open>
  Modelled from the spec: \<^verbatim>\<open>ErrorResponse(c, e)\<close>, a function of package \<^verbatim>\<open>server\<close> that
  \<^verbatim>\<open>server.go\<close> calls and does not define. The spec: the error's "embedded status code
  and structured JSON body are written as-is".
\<close>

definition ErrorResponse :: "('s, 'r) deps \<Rightarrow> Response \<Rightarrow> 'r \<Rightarrow> Response" where
  "ErrorResponse d c e = ctx_JSON d (response_status d e) (JErrorResponse e) c"

section \<open>Configuration and server\<close>

text \<open>
  \<^verbatim>\<open>time.Duration\<close> counts nanoseconds. A health check is modelled by what it returns:
  \<open>None\<close> for nil, \<open>Some msg\<close> for an error whose \<^verbatim>\<open>Error()\<close> is \<open>msg\<close>. The shutdown
  hook (\<open>'h\<close>) and the caller's middlewares (\<open>'m\<close>) are never run by the model.
\<close>

type_synonym Duration = int

definition time_Second :: Duration where
  "time_Second = 1000000000"

record ('h, 'm) Config =
  Name :: string
  Addr :: string
  Timeout :: Duration
  HealthCheck :: "(unit \<Rightarrow> string option) option"
  ShutdownFunc :: "'h option"
  Middleware :: "'m list"

datatype 'm middleware = Recover | Logger string | Custom 'm

datatype http_method = GET | POST

datatype route_handler =
    HealthCheckRoute "(unit \<Rightarrow> string option) option"
  | StatsRoute
  | LogRoute

record 'm Echo =
  Debug :: bool
  uses :: "'m middleware list"
  routes :: "(http_method \<times> string \<times> route_handler) list"

text \<open>\<^verbatim>\<open>graceful.Server\<close>, with the flag that \<^verbatim>\<open>Stop\<close> has sent its interrupt.\<close>

record 'h graceful_Server =
  g_Addr :: string
  g_Timeout :: Duration
  g_BeforeShutdown :: "'h option"
  g_interrupted :: bool

record httptest_Server =
  URL :: string
  closed :: bool

text \<open>The two pointers \<^verbatim>\<open>g\<close> and \<^verbatim>\<open>t\<close> are nil until a start operation sets them.\<close>

record ('h, 'm) Server =
  srv_e :: "'m Echo"
  srv_c :: "('h, 'm) Config"
  srv_g :: "'h graceful_Server option"
  srv_t :: "httptest_Server option"

definition echo_New :: "'m Echo" where
  "echo_New = \<lparr>Debug = False, uses = [], routes = []\<rparr>"

definition Use :: "'m middleware \<Rightarrow> 'm Echo \<Rightarrow> 'm Echo" where
  "Use m e = e\<lparr>uses := uses e @ [m]\<rparr>"

definition add_route :: "http_method \<Rightarrow> string \<Rightarrow> route_handler \<Rightarrow> 'm Echo \<Rightarrow> 'm Echo" where
  "add_route m path h e = e\<lparr>routes := routes e @ [(m, path, h)]\<rparr>"

definition New :: "('h, 'm) Config \<Rightarrow> ('h, 'm) Server" where
  "New config =
     (let e0 = echo_New;
          e1 = Use Recover e0;
          e2 = Use (Logger (Name config)) e1;
          e3 = fold (\<lambda>m e. Use (Custom m) e) (Middleware config) e2;
          e4 = add_route GET ''/admin/health'' (HealthCheckRoute (HealthCheck config)) e3;
          e5 = add_route GET ''/admin/stats'' StatsRoute e4;
          e6 = add_route POST ''/admin/logging/:level'' LogRoute e5
      in \<lparr>srv_e = e6, srv_c = config, srv_g = None, srv_t = None\<rparr>)"

text \<open>
  \<^verbatim>\<open>Start\<close> builds the graceful server from the configuration and then blocks in
  \<^verbatim>\<open>ListenAndServe\<close>; the model keeps the assignment, which is what \<^verbatim>\<open>Stop\<close> reads.
\<close>

definition Start :: "('h, 'm) Server \<Rightarrow> ('h, 'm) Server" where
  "Start s =
     s\<lparr>srv_g := Some \<lparr>g_Addr = Addr (srv_c s), g_Timeout = Timeout (srv_c s),
                       g_BeforeShutdown = ShutdownFunc (srv_c s), g_interrupted = False\<rparr>\<rparr>"

text \<open>\<^verbatim>\<open>StartTest\<close>: the test server chooses its URL, a parameter here.\<close>

definition StartTest :: "string \<Rightarrow> ('h, 'm) Server \<Rightarrow> string \<times> ('h, 'm) Server" where
  "StartTest url s = (url, s\<lparr>srv_t := Some \<lparr>URL = url, closed = False\<rparr>\<rparr>)"

text \<open>
  \<^verbatim>\<open>graceful.Server.Stop(timeout)\<close>, as that library documents it: the timeout passed
  replaces the one given when the server was built, and the interrupt is sent. The call
  does not wait for the shutdown to finish.
\<close>

definition graceful_Stop :: "Duration \<Rightarrow> 'h graceful_Server \<Rightarrow> 'h graceful_Server" where
  "graceful_Stop timeout srv = srv\<lparr>g_Timeout := timeout, g_interrupted := True\<rparr>"

definition httptest_Close :: "httptest_Server \<Rightarrow> httptest_Server" where
  "httptest_Close t = t\<lparr>closed := True\<rparr>"

text \<open>Both stop operations call a method that reads through the pointer: nil panics.\<close>

definition Stop :: "('h, 'm) Server \<Rightarrow> panic + ('h, 'm) Server" where
  "Stop s =
     (case srv_g s of
        None \<Rightarrow> Inl NilPointerDereference
      | Some g \<Rightarrow> Inr (s\<lparr>srv_g := Some (graceful_Stop (time_Second * 5) g)\<rparr>))"

definition StopTest :: "('h, 'm) Server \<Rightarrow> panic + ('h, 'm) Server" where
  "StopTest s =
     (case srv_t s of
        None \<Rightarrow> Inl NilPointerDereference
      | Some t \<Rightarrow> Inr (s\<lparr>srv_t := Some (httptest_Close t)\<rparr>))"

text \<open>The deadline a shutdown of this server drains with: the graceful server's timeout.\<close>

definition drain_deadline :: "('h, 'm) Server \<Rightarrow> Duration option" where
  "drain_deadline s = map_option g_Timeout (srv_g s)"

text \<open>Sequences of lifecycle calls; a panic ends the sequence.\<close>

datatype lifecycle_op = OpStart | OpStartTest string | OpStop | OpStopTest

fun lifecycle_step :: "lifecycle_op \<Rightarrow> ('h, 'm) Server \<Rightarrow> panic + ('h, 'm) Server" where
  "lifecycle_step OpStart s = Inr (Start s)"
| "lifecycle_step (OpStartTest url) s = Inr (snd (StartTest url s))"
| "lifecycle_step OpStop s = Stop s"
| "lifecycle_step OpStopTest s = StopTest s"

fun lifecycle :: "lifecycle_op list \<Rightarrow> ('h, 'm) Server \<Rightarrow> panic + ('h, 'm) Server" where
  "lifecycle [] s = Inr s"
| "lifecycle (x # xs) s =
     (case lifecycle_step x s of Inl p \<Rightarrow> Inl p | Inr s' \<Rightarrow> lifecycle xs s')"

fun is_StartTest :: "lifecycle_op \<Rightarrow> bool" where
  "is_StartTest (OpStartTest url) = True"
| "is_StartTest x = False"

section \<open>The error translator\<close>

text \<open>
  \<^verbatim>\<open>httpErrorHandler\<close> returns the response and the errors it passed to \<^verbatim>\<open>log.Error\<close>.
  The first two cases of the type switch and the codes 404 and 405 of the third return
  early; an \<^verbatim>\<open>HTTPError\<close> with any other code and the default case, which logs, fall
  through to the lines after the switch.
\<close>

text \<open>
  \<^verbatim>\<open>err.Error()\<close>. The handler calls it on the two kinds of error that reach the lines
  after the switch; the text of the other two kinds is never read and is left empty.
\<close>

definition Error :: "('s, 'r) deps \<Rightarrow> ('s, 'r) go_error \<Rightarrow> string" where
  "Error d err =
     (case err of
        HTTPError code message \<Rightarrow> HTTPError_Error d code message
      | OtherError text \<Rightarrow> text
      | _ \<Rightarrow> [])"

text \<open>
  The lines after the type switch, entered with the \<^verbatim>\<open>code\<close> the switch has left and the
  errors logged so far.
\<close>

definition after_switch ::
  "('s, 'r) deps \<Rightarrow> ('h, 'm) Server \<Rightarrow> ('s, 'r) go_error \<Rightarrow> int \<Rightarrow> ('s, 'r) go_error list
     \<Rightarrow> Response \<Rightarrow> Response \<times> ('s, 'r) go_error list" where
  "after_switch d s err code logged c =
     (let msg = StatusText code;
          (code, msg) = (case err of
                           HTTPError he_code he_message \<Rightarrow> (he_code, Error d err)
                         | _ \<Rightarrow> (code, msg));
          msg = (if Debug (srv_e s) then Error d err else msg)
      in (if \<not> Committed c then http_Error c msg code else c, logged))"

definition httpErrorHandler ::
  "('s, 'r) deps \<Rightarrow> ('h, 'm) Server \<Rightarrow> ('s, 'r) go_error \<Rightarrow> Response
     \<Rightarrow> Response \<times> ('s, 'r) go_error list" where
  "httpErrorHandler d s err c =
     (case err of
        StatusError status \<Rightarrow> (ctx_JSON d 400 (JStatus status) c, [])
      | ErrorResponseError e \<Rightarrow> (ErrorResponse d c e, [])
      | HTTPError code message \<Rightarrow>
          if code = 404
            then (ctx_JSON d code (JErrorResponse (errors_NotFound d [])) c, [])
          else if code = 405
            then (ctx_JSON d code (JErrorResponse (errors_MethodNotAllowed d [])) c, [])
          else after_switch d s err code [] c
      | OtherError text \<Rightarrow> after_switch d s err 500 [err] c)"

section \<open>The admin endpoints\<close>

text \<open>
  A route handler returns its error (\<open>None\<close> for nil) and the response it has written.
  In \<^verbatim>\<open>makeHealthCheck\<close> the error built from a failed check is not returned.
\<close>

definition makeHealthCheck ::
  "(unit \<Rightarrow> string option) option \<Rightarrow> Response \<Rightarrow> ('s, 'r) go_error option \<times> Response" where
  "makeHealthCheck hcFunc c =
     (case hcFunc of
        None \<Rightarrow> (Some (NewHTTPError 501 ''Not Implemented''), c)
      | Some f \<Rightarrow>
          (let err = f ();
               discarded = (case err of
                              Some text \<Rightarrow> Some (NewHTTPError 500 text :: ('s, 'r) go_error)
                            | None \<Rightarrow> None)
           in (None, NoContent 204 c)))"

text \<open>
  The registry of published variables is the list of its entries in the order in which
  \<^verbatim>\<open>expvar.Do\<close> visits them, each a key and the text of its value's \<^verbatim>\<open>String()\<close>. The verb
  \<^verbatim>\<open>%q\<close> of the formatter is the parameter \<open>quote\<close>. \<open>stats_loop\<close> is the callback run over
  the registry, with the variable \<^verbatim>\<open>first\<close> it captures.
\<close>

fun stats_loop ::
  "(string \<Rightarrow> string) \<Rightarrow> (string \<times> string) list \<Rightarrow> bool \<times> Response \<Rightarrow> bool \<times> Response" where
  "stats_loop quote [] st = st"
| "stats_loop quote (kv # kvs) (first, w) =
     (let w1 = (if \<not> first then Write ('','' @ LF) w else w);
          w2 = Write (quote (fst kv) @ '': '' @ snd kv) w1
      in stats_loop quote kvs (False, w2))"

definition statsHandler ::
  "(string \<Rightarrow> string) \<Rightarrow> (string \<times> string) list \<Rightarrow> Response
     \<Rightarrow> ('s, 'r) go_error option \<times> Response" where
  "statsHandler quote registry c =
     (let w0 = Header_Set ''Content-Type'' ''application/json; charset=utf-8'' c;
          w1 = Write (''{'' @ LF) w0;
          (first, w2) = stats_loop quote registry (True, w1);
          w3 = Write (LF @ ''}'' @ LF) w2
      in (None, w3))"


section \<open>Serving a request\<close>

text \<open>
  The framework runs the route's handler and calls the error handler when, and only when,
  the handler returned a non-nil error.
\<close>

definition handle_result ::
  "('s, 'r) deps \<Rightarrow> ('h, 'm) Server \<Rightarrow> ('s, 'r) go_error option \<times> Response
     \<Rightarrow> Response \<times> ('s, 'r) go_error list" where
  "handle_result d s res =
     (case fst res of
        None \<Rightarrow> (snd res, [])
      | Some err \<Rightarrow> httpErrorHandler d s err (snd res))"

definition serve_health ::
  "('s, 'r) deps \<Rightarrow> ('h, 'm) Server \<Rightarrow> Response \<Rightarrow> Response \<times> ('s, 'r) go_error list" where
  "serve_health d s c = handle_result d s (makeHealthCheck (HealthCheck (srv_c s)) c)"

definition serve_stats ::
  "('s, 'r) deps \<Rightarrow> ('h, 'm) Server \<Rightarrow> (string \<Rightarrow> string) \<Rightarrow> (string \<times> string) list
     \<Rightarrow> Response \<Rightarrow> Response \<times> ('s, 'r) go_error list" where
  "serve_stats d s quote registry c = handle_result d s (statsHandler quote registry c)"


section \<open>The precedence of the error categories, as the specification words it\<close>











section \<open>The text of the stats endpoint\<close>

text \<open>
  The text of the stats endpoint as the specification describes it: one entry
  \<^verbatim>\<open>"name": value\<close> for each published variable, joined by a comma and a line feed.
\<close>

fun join :: "string \<Rightarrow> string list \<Rightarrow> string" where
  "join sep [] = []"
| "join sep [x] = x"
| "join sep (x # y # ys) = x @ sep @ join sep (y # ys)"

definition stats_entries :: "(string \<Rightarrow> string) \<Rightarrow> (string \<times> string) list \<Rightarrow> string list" where
  "stats_entries quote registry = map (\<lambda>kv. quote (fst kv) @ '': '' @ snd kv) registry"

definition stats_text :: "(string \<Rightarrow> string) \<Rightarrow> (string \<times> string) list \<Rightarrow> string" where
  "stats_text quote registry =
     ''{'' @ LF @ join ('','' @ LF) (stats_entries quote registry) @ LF @ ''}'' @ LF"

section \<open>JSON texts\<close>

text \<open>
  What it means for the text of the stats endpoint to be a JSON object with given keys is
  fixed by a recogniser of JSON texts (RFC 8259): a pushdown automaton that reads one
  character at a time. Its state is the mode it is in, the stack of the objects and arrays
  that are open, the string being read, decoded, and the keys read so far in the outermost
  object. A decoded character is a byte, or the code unit of a \<^verbatim>\<open>\uXXXX\<close> escape.
\<close>

definition is_ws :: "char \<Rightarrow> bool" where
  "is_ws c = (c = CHR '' '' \<or> c = CHR 0x09 \<or> c = CHR 0x0A \<or> c = CHR 0x0D)"

definition is_digit :: "char \<Rightarrow> bool" where
  "is_digit c = (48 \<le> (of_char c :: nat) \<and> (of_char c :: nat) \<le> 57)"

definition hex_value :: "char \<Rightarrow> nat option" where
  "hex_value c =
     (let n = (of_char c :: nat)
      in if 48 \<le> n \<and> n \<le> 57 then Some (n - 48)
         else if 65 \<le> n \<and> n \<le> 70 then Some (n - 55)
         else if 97 \<le> n \<and> n \<le> 102 then Some (n - 87)
         else None)"

datatype json_char = Byte char | CodeUnit nat

datatype json_ctx = InObject | InArray

datatype json_mode =
    ExpectValue | ExpectValueOrEnd | ExpectKeyOrEnd | ExpectKey | ExpectColon | AfterValue
  | InString bool | InEscape bool | InHex bool nat nat
  | InLiteral string
  | NumMinus | NumZero | NumInt | NumDot | NumFrac | NumE | NumESign | NumExp

type_synonym json_state = "json_mode \<times> json_ctx list \<times> json_char list \<times> json_char list list"

fun after_value :: "json_ctx list \<Rightarrow> json_char list \<Rightarrow> json_char list list \<Rightarrow> char \<Rightarrow> json_state option" where
  "after_value stack cur keys c =
     (if is_ws c then Some (AfterValue, stack, cur, keys)
      else case stack of
             [] \<Rightarrow> None
           | InObject # rest \<Rightarrow>
               if c = CHR '','' then Some (ExpectKey, stack, cur, keys)
               else if c = CHR ''}'' then Some (AfterValue, rest, cur, keys)
               else None
           | InArray # rest \<Rightarrow>
               if c = CHR '','' then Some (ExpectValue, stack, cur, keys)
               else if c = CHR '']'' then Some (AfterValue, rest, cur, keys)
               else None)"

fun begin_value :: "json_ctx list \<Rightarrow> json_char list \<Rightarrow> json_char list list \<Rightarrow> char \<Rightarrow> json_state option" where
  "begin_value stack cur keys c =
     (if c = CHR ''{'' then Some (ExpectKeyOrEnd, InObject # stack, cur, keys)
      else if c = CHR ''['' then Some (ExpectValueOrEnd, InArray # stack, cur, keys)
      else if c = CHR 0x22 then Some (InString False, stack, [], keys)
      else if c = CHR ''-'' then Some (NumMinus, stack, cur, keys)
      else if c = CHR ''0'' then Some (NumZero, stack, cur, keys)
      else if is_digit c then Some (NumInt, stack, cur, keys)
      else if c = CHR ''t'' then Some (InLiteral ''rue'', stack, cur, keys)
      else if c = CHR ''f'' then Some (InLiteral ''alse'', stack, cur, keys)
      else if c = CHR ''n'' then Some (InLiteral ''ull'', stack, cur, keys)
      else None)"

definition unescape :: "char \<Rightarrow> char option" where
  "unescape c =
     (if c = CHR 0x22 \<or> c = CHR 0x5C \<or> c = CHR ''/'' then Some c
      else if c = CHR ''b'' then Some (CHR 0x08)
      else if c = CHR ''f'' then Some (CHR 0x0C)
      else if c = CHR ''n'' then Some (CHR 0x0A)
      else if c = CHR ''r'' then Some (CHR 0x0D)
      else if c = CHR ''t'' then Some (CHR 0x09)
      else None)"

fun json_step :: "json_state \<Rightarrow> char \<Rightarrow> json_state option" where
  "json_step (ExpectValue, stack, cur, keys) c =
     (if is_ws c then Some (ExpectValue, stack, cur, keys) else begin_value stack cur keys c)"
| "json_step (ExpectValueOrEnd, stack, cur, keys) c =
     (if is_ws c then Some (ExpectValueOrEnd, stack, cur, keys)
      else if c = CHR '']'' then
        (case stack of InArray # rest \<Rightarrow> Some (AfterValue, rest, cur, keys) | _ \<Rightarrow> None)
      else begin_value stack cur keys c)"
| "json_step (ExpectKeyOrEnd, stack, cur, keys) c =
     (if is_ws c then Some (ExpectKeyOrEnd, stack, cur, keys)
      else if c = CHR ''}'' then
        (case stack of InObject # rest \<Rightarrow> Some (AfterValue, rest, cur, keys) | _ \<Rightarrow> None)
      else if c = CHR 0x22 then Some (InString True, stack, [], keys)
      else None)"
| "json_step (ExpectKey, stack, cur, keys) c =
     (if is_ws c then Some (ExpectKey, stack, cur, keys)
      else if c = CHR 0x22 then Some (InString True, stack, [], keys)
      else None)"
| "json_step (ExpectColon, stack, cur, keys) c =
     (if is_ws c then Some (ExpectColon, stack, cur, keys)
      else if c = CHR '':'' then Some (ExpectValue, stack, cur, keys)
      else None)"
| "json_step (AfterValue, stack, cur, keys) c = after_value stack cur keys c"
| "json_step (InString key, stack, cur, keys) c =
     (if c = CHR 0x22 then
        (if key then Some (ExpectColon, stack, cur, if stack = [InObject] then keys @ [cur] else keys)
         else Some (AfterValue, stack, cur, keys))
      else if c = CHR 0x5C then Some (InEscape key, stack, cur, keys)
      else if (of_char c :: nat) < 32 then None
      else Some (InString key, stack, cur @ [Byte c], keys))"
| "json_step (InEscape key, stack, cur, keys) c =
     (if c = CHR ''u'' then Some (InHex key 4 0, stack, cur, keys)
      else case unescape c of
             Some b \<Rightarrow> Some (InString key, stack, cur @ [Byte b], keys)
           | None \<Rightarrow> None)"
| "json_step (InHex key n acc, stack, cur, keys) c =
     (case hex_value c of
        None \<Rightarrow> None
      | Some h \<Rightarrow>
          if n \<le> 1 then Some (InString key, stack, cur @ [CodeUnit (16 * acc + h)], keys)
          else Some (InHex key (n - 1) (16 * acc + h), stack, cur, keys))"
| "json_step (InLiteral rest, stack, cur, keys) c =
     (case rest of
        [] \<Rightarrow> None
      | x # xs \<Rightarrow>
          if c = x then Some (if xs = [] then AfterValue else InLiteral xs, stack, cur, keys)
          else None)"
| "json_step (NumMinus, stack, cur, keys) c =
     (if c = CHR ''0'' then Some (NumZero, stack, cur, keys)
      else if is_digit c then Some (NumInt, stack, cur, keys)
      else None)"
| "json_step (NumZero, stack, cur, keys) c =
     (if c = CHR ''.'' then Some (NumDot, stack, cur, keys)
      else if c = CHR ''e'' \<or> c = CHR ''E'' then Some (NumE, stack, cur, keys)
      else after_value stack cur keys c)"
| "json_step (NumInt, stack, cur, keys) c =
     (if is_digit c then Some (NumInt, stack, cur, keys)
      else if c = CHR ''.'' then Some (NumDot, stack, cur, keys)
      else if c = CHR ''e'' \<or> c = CHR ''E'' then Some (NumE, stack, cur, keys)
      else after_value stack cur keys c)"
| "json_step (NumDot, stack, cur, keys) c =
     (if is_digit c then Some (NumFrac, stack, cur, keys) else None)"
| "json_step (NumFrac, stack, cur, keys) c =
     (if is_digit c then Some (NumFrac, stack, cur, keys)
      else if c = CHR ''e'' \<or> c = CHR ''E'' then Some (NumE, stack, cur, keys)
      else after_value stack cur keys c)"
| "json_step (NumE, stack, cur, keys) c =
     (if c = CHR ''+'' \<or> c = CHR ''-'' then Some (NumESign, stack, cur, keys)
      else if is_digit c then Some (NumExp, stack, cur, keys)
      else None)"
| "json_step (NumESign, stack, cur, keys) c =
     (if is_digit c then Some (NumExp, stack, cur, keys) else None)"
| "json_step (NumExp, stack, cur, keys) c =
     (if is_digit c then Some (NumExp, stack, cur, keys)
      else after_value stack cur keys c)"

text \<open>Running the automaton over a text; \<open>None\<close> when a character is refused.\<close>

fun json_run :: "string \<Rightarrow> json_state \<Rightarrow> json_state option" where
  "json_run [] st = Some st"
| "json_run (c # cs) st = (case json_step st c of None \<Rightarrow> None | Some st' \<Rightarrow> json_run cs st')"

text \<open>
  The modes in which a value is complete: after a string, a literal or a closing bracket,
  and inside a number that may end here.
\<close>

fun complete_mode :: "json_mode \<Rightarrow> bool" where
  "complete_mode AfterValue = True"
| "complete_mode NumZero = True"
| "complete_mode NumInt = True"
| "complete_mode NumFrac = True"
| "complete_mode NumExp = True"
| "complete_mode m = False"

definition json_start :: json_state where
  "json_start = (ExpectValue, [], [], [])"

definition is_json_value :: "string \<Rightarrow> bool" where
  "is_json_value v =
     (case json_run v json_start of
        Some (m, stack, cur, keys) \<Rightarrow> stack = [] \<and> complete_mode m
      | None \<Rightarrow> False)"

text \<open>
  The keys of a text that is a single JSON object, in the order written; \<open>None\<close> for any
  other text.
\<close>

definition json_object_keys :: "string \<Rightarrow> json_char list list option" where
  "json_object_keys t =
     (case dropWhile is_ws t of
        [] \<Rightarrow> None
      | c # cs \<Rightarrow>
          if c = CHR ''{'' then
            (case json_run t json_start of
               Some (m, stack, cur, keys) \<Rightarrow> if stack = [] \<and> m = AfterValue then Some keys else None
             | None \<Rightarrow> None)
          else None)"


text \<open>
  The modes that are entered only inside an object: reading a key, or waiting for one.
\<close>

fun needs_object :: "json_mode \<Rightarrow> bool" where
  "needs_object ExpectKeyOrEnd = True"
| "needs_object ExpectKey = True"
| "needs_object (InString key) = key"
| "needs_object (InEscape key) = key"
| "needs_object (InHex key n acc) = key"
| "needs_object m = False"

section \<open>The formatter's quoting\<close>

text \<open>
  The verb \<^verbatim>\<open>%q\<close> writes a string as a Go string literal (\<^verbatim>\<open>strconv.Quote\<close>): the quote
  and the backslash are escaped with a backslash, the other printable ASCII characters
  stand for themselves, seven control characters have a letter escape (among them
  \<^verbatim>\<open>\a\<close> and \<^verbatim>\<open>\v\<close>), and any other ASCII control character is written \<^verbatim>\<open>\x\<close> and two
  hexadecimal digits. This is exact for ASCII strings. A byte above \<open>0x7F\<close> is written here
  as Go writes a byte that is not part of a valid UTF-8 sequence, also with \<^verbatim>\<open>\x\<close>; the
  theorems below are about ASCII names.
\<close>

definition hex_digits :: string where
  "hex_digits = ''0123456789abcdef''"

definition quote_byte :: "char \<Rightarrow> string" where
  "quote_byte c =
     (let n = (of_char c :: nat)
      in if c = CHR 0x22 \<or> c = CHR 0x5C then [CHR 0x5C, c]
         else if 32 \<le> n \<and> n \<le> 126 then [c]
         else if n = 7 then [CHR 0x5C, CHR ''a'']
         else if n = 8 then [CHR 0x5C, CHR ''b'']
         else if n = 12 then [CHR 0x5C, CHR ''f'']
         else if n = 10 then [CHR 0x5C, CHR ''n'']
         else if n = 13 then [CHR 0x5C, CHR ''r'']
         else if n = 9 then [CHR 0x5C, CHR ''t'']
         else if n = 11 then [CHR 0x5C, CHR ''v'']
         else [CHR 0x5C, CHR ''x'', hex_digits ! (n div 16), hex_digits ! (n mod 16)])"

definition strconv_Quote :: "string \<Rightarrow> string" where
  "strconv_Quote s = CHR 0x22 # concat (map quote_byte s) @ [CHR 0x22]"

definition printable_ascii :: "string \<Rightarrow> bool" where
  "printable_ascii s = list_all (\<lambda>c. 32 \<le> (of_char c :: nat) \<and> (of_char c :: nat) \<le> 126) s"

text \<open>
  An entry of the registry whose name is printable ASCII and whose value prints as a JSON
  value, as the contract of a published variable asks.
\<close>

definition well_formed_entry :: "string \<times> string \<Rightarrow> bool" where
  "well_formed_entry kv = (printable_ascii (fst kv) \<and> is_json_value (snd kv))"

section \<open>Sample inputs\<close>

definition sample_deps :: "(string, int \<times> string) deps" where
  "sample_deps =
     \<lparr>marshal = (\<lambda>v. case v of JStatus status \<Rightarrow> status | JErrorResponse e \<Rightarrow> snd e),
      errors_NotFound = (\<lambda>m. (404, ''{not found}'')),
      errors_MethodNotAllowed = (\<lambda>m. (405, ''{method not allowed}'')),
      response_status = fst,
      HTTPError_Error = (\<lambda>code message. message)\<rparr>"

definition sample_config :: "Duration \<Rightarrow> (unit \<Rightarrow> string option) option \<Rightarrow> (unit, unit) Config" where
  "sample_config timeout hc =
     \<lparr>Name = ''vili'', Addr = '':80'', Timeout = timeout, HealthCheck = hc,
      ShutdownFunc = None, Middleware = []\<rparr>"

definition sample_server :: "(unit, unit) Server" where
  "sample_server = New (sample_config (30 * time_Second) None)"

definition debug_server :: "(unit, unit) Server" where
  "debug_server = sample_server\<lparr>srv_e := (srv_e sample_server)\<lparr>Debug := True\<rparr>\<rparr>"

definition sample_registry :: "(string \<times> string) list" where
  "sample_registry =
     [(''requests'', ''42''),
      (''cmd'' @ [CHR 0x22] @ ''line'', ''['' @ [CHR 0x22] @ ''vili'' @ [CHR 0x22] @ '', 2.5e-3]''),
      (''memstats'', ''{'' @ [CHR 0x22] @ ''Alloc'' @ [CHR 0x22] @ '': 1024, ''
                      @ [CHR 0x22] @ ''ok'' @ [CHR 0x22] @ '': true}'')]"

definition control_registry :: "(string \<times> string) list" where
  "control_registry = [([CHR 0x01], ''1'')]"

definition committed_response :: Response where
  "committed_response =
     \<lparr>Status = 200, Committed = True, Header = Map.empty, Body = ''ok'', Panicked = None\<rparr>"


section \<open>Facts about the response writer\<close>

lemma Header_Set_fields:
  "Committed (Header_Set k v r) = Committed r"
  "Body (Header_Set k v r) = Body r"
  "Status (Header_Set k v r) = Status r"
  "Panicked (Header_Set k v r) = Panicked r"
  "Header (Header_Set k v r) = (Header r)(k \<mapsto> v)"
  by (simp_all add: Header_Set_def)

lemma WriteHeader_committed: "Committed r \<Longrightarrow> WriteHeader code r = Inr r"
  by (simp add: WriteHeader_def)

lemma WriteHeader_valid:
  "\<not> Committed r \<Longrightarrow> 100 \<le> code \<Longrightarrow> code \<le> 999
     \<Longrightarrow> WriteHeader code r = Inr (r\<lparr>Status := code, Committed := True\<rparr>)"
  by (simp add: WriteHeader_def checkWriteHeaderCode_def)

lemma WriteHeader_invalid:
  "\<not> Committed r \<Longrightarrow> code < 100 \<or> 999 < code
     \<Longrightarrow> WriteHeader code r = Inl (InvalidWriteHeaderCode code)"
  by (auto simp: WriteHeader_def checkWriteHeaderCode_def)

lemma Write_committed:
  "Committed r \<Longrightarrow> Write b r = (if bodyAllowedForStatus (Status r) then r\<lparr>Body := Body r @ b\<rparr> else r)"
  by (simp add: Write_def)

lemma Write_uncommitted:
  "\<not> Committed r \<Longrightarrow> Write b r = r\<lparr>Status := 200, Committed := True, Body := Body r @ b\<rparr>"
  by (simp add: Write_def WriteHeader_def checkWriteHeaderCode_def bodyAllowedForStatus_def)

lemma Header_Write: "Header (Write b r) = Header r"
  by (simp add: Write_def WriteHeader_def checkWriteHeaderCode_def)

lemma ctx_JSON_uncommitted:
  assumes "\<not> Committed r" and "200 \<le> code" and "code \<le> 999" and "code \<noteq> 204" and "code \<noteq> 304"
  shows "Status (ctx_JSON d code v r) = code"
    and "Body (ctx_JSON d code v r) = Body r @ marshal d v"
    and "Committed (ctx_JSON d code v r)"
    and "Panicked (ctx_JSON d code v r) = Panicked r"
  using assms
  by (simp_all add: ctx_JSON_def Let_def WriteHeader_valid Header_Set_fields Write_committed
      bodyAllowedForStatus_def)

lemma http_Error_uncommitted:
  assumes "\<not> Committed w" and "200 \<le> code" and "code \<le> 999" and "code \<noteq> 204" and "code \<noteq> 304"
  shows "Status (http_Error w msg code) = code"
    and "Body (http_Error w msg code) = Body w @ msg @ LF"
    and "Committed (http_Error w msg code)"
    and "Panicked (http_Error w msg code) = Panicked w"
  using assms
  by (simp_all add: http_Error_def Let_def WriteHeader_valid Header_Set_fields Write_committed
      bodyAllowedForStatus_def)

lemma http_Error_invalid_code:
  assumes "\<not> Committed w" and "code < 100 \<or> 999 < code"
  shows "Panicked (http_Error w msg code) = Some (InvalidWriteHeaderCode code)"
    and "Body (http_Error w msg code) = Body w"
    and "\<not> Committed (http_Error w msg code)"
  using assms
  by (simp_all add: http_Error_def Let_def WriteHeader_invalid Header_Set_fields)

lemma http_Error_no_body:
  assumes "\<not> Committed w" and "100 \<le> code \<and> code \<le> 199 \<or> code = 204 \<or> code = 304"
  shows "Status (http_Error w msg code) = code"
    and "Body (http_Error w msg code) = Body w"
  using assms
  by (auto simp: http_Error_def Let_def WriteHeader_valid Header_Set_fields Write_committed
      bodyAllowedForStatus_def)

lemma Write_ok:
  "Committed r \<Longrightarrow> Status r = 200
     \<Longrightarrow> Write b r = r\<lparr>Body := Body r @ b\<rparr>"
  by (simp add: Write_committed bodyAllowedForStatus_def)

section \<open>The health endpoint\<close>

text \<open>
  Claim C1 asks that a health check which returns an error is answered with status 500
  and the failure message. The handler evaluated at a check that fails with
  \<^verbatim>\<open>db down\<close>: it returns no error, so the translator is not entered, and the request is
  answered with status 204 and an empty body. The error value is built and dropped.
\<close>

theorem health_failure_answers_204:
  "makeHealthCheck (Some (\<lambda>u. Some ''db down'')) fresh_response
     = (None :: (string, int \<times> string) go_error option, NoContent 204 fresh_response)
   \<and> Status (fst (serve_health sample_deps
        (New (sample_config (30 * time_Second) (Some (\<lambda>u. Some ''db down'')))) fresh_response)) = 204
   \<and> Body (fst (serve_health sample_deps
        (New (sample_config (30 * time_Second) (Some (\<lambda>u. Some ''db down'')))) fresh_response)) = []"
  by (simp add: makeHealthCheck_def serve_health_def handle_result_def New_def sample_config_def
      NoContent_def fresh_response_def WriteHeader_def checkWriteHeaderCode_def Let_def)

section \<open>What the error translator answers\<close>

text \<open>
  Claim C2 as amended: for an \<^verbatim>\<open>HTTPError\<close> whose code is a status that carries a body
  (200 to 999, but not 204 or 304) and is neither 404 nor 405, and a response that is not
  committed yet, the translator answers with that code and with the text of the error's
  \<^verbatim>\<open>Error()\<close> as \<^verbatim>\<open>http.Error\<close> prints it, on a line of its own, whether the debug flag
  is set or not; it does not panic and logs nothing. The status text of the code is
  computed and then overwritten. (For a code outside 100..999 the writer panics, and for
  1xx, 204 and 304 it sends no body: lemmas \<open>http_Error_invalid_code\<close> and
  \<open>http_Error_no_body\<close>.)
\<close>

theorem http_error_other_code:
  assumes "200 \<le> code" and "code \<le> 999" and "code \<notin> {204, 304, 404, 405}" and "\<not> Committed c"
  shows "Status (fst (httpErrorHandler d s (HTTPError code message) c)) = code
       \<and> Body (fst (httpErrorHandler d s (HTTPError code message) c))
           = Body c @ HTTPError_Error d code message @ LF
       \<and> Panicked (fst (httpErrorHandler d s (HTTPError code message) c)) = Panicked c
       \<and> snd (httpErrorHandler d s (HTTPError code message) c) = []"
  using assms
  by (simp add: httpErrorHandler_def after_switch_def Error_def http_Error_uncommitted Let_def)

theorem http_error_other_code_witness:
  "(200::int) \<le> 500 \<and> (500::int) \<le> 999 \<and> (500::int) \<notin> {204, 304, 404, 405}
   \<and> \<not> Committed fresh_response
   \<and> Status (fst (httpErrorHandler sample_deps debug_server (HTTPError 500 ''boom'') fresh_response)) = 500
   \<and> Body (fst (httpErrorHandler sample_deps debug_server (HTTPError 500 ''boom'') fresh_response))
        = ''boom'' @ LF"
proof -
  have uncommitted: "\<not> Committed fresh_response" and empty: "Body fresh_response = []"
    by (simp_all add: fresh_response_def)
  have etext: "HTTPError_Error sample_deps 500 ''boom'' = ''boom''"
    by (simp add: sample_deps_def)
  have rng: "(200::int) \<le> 500" "(500::int) \<le> 999" "(500::int) \<notin> {204, 304, 404, 405}"
    by simp_all
  from http_error_other_code [OF rng uncommitted, of sample_deps debug_server "''boom''"]
    uncommitted empty etext rng
  show ?thesis by simp
qed

text \<open>
  Claim C2 as stated fails: without the debug flag, an \<^verbatim>\<open>HTTPError\<close> with code 500 and
  message \<^verbatim>\<open>boom\<close> is answered with the message, not with the status text of 500.
\<close>

theorem http_error_body_counterexample:
  "\<not> Debug (srv_e sample_server)
   \<and> Body (fst (httpErrorHandler sample_deps sample_server (HTTPError 500 ''boom'') fresh_response))
       = ''boom'' @ LF
   \<and> StatusText 500 = ''Internal Server Error''
   \<and> Body (fst (httpErrorHandler sample_deps sample_server (HTTPError 500 ''boom'') fresh_response))
       \<noteq> StatusText 500"
  by (simp add: httpErrorHandler_def after_switch_def Error_def http_Error_uncommitted
      sample_server_def New_def echo_New_def Use_def add_route_def sample_config_def
      sample_deps_def fresh_response_def StatusText_def statusText_def LF_def Let_def)

text \<open>
  Claim C3 asks that nothing is written to a response that is already committed, in every
  branch. Only the lines after the type switch test \<^verbatim>\<open>Committed\<close>. The translator
  evaluated at an upstream API error and a committed response whose body is \<^verbatim>\<open>ok\<close>: the
  encoded status object is appended to the body.
\<close>

theorem committed_response_is_written:
  "Committed committed_response
   \<and> Body committed_response = ''ok''
   \<and> Body (fst (httpErrorHandler sample_deps sample_server (StatusError ''{st}'') committed_response))
        = ''ok{st}''
   \<and> fst (httpErrorHandler sample_deps sample_server (StatusError ''{st}'') committed_response)
        \<noteq> committed_response"
proof -
  have b: "Body (fst (httpErrorHandler sample_deps sample_server (StatusError ''{st}'') committed_response))
        = ''ok{st}''"
    by (simp add: httpErrorHandler_def ctx_JSON_def Let_def WriteHeader_committed Write_committed
        Header_Set_fields bodyAllowedForStatus_def committed_response_def sample_deps_def)
  have "Body committed_response = ''ok''" "Committed committed_response"
    by (simp_all add: committed_response_def)
  with b show ?thesis by auto
qed





text \<open>
  Claim C6: an \<^verbatim>\<open>HTTPError\<close> with code 404 is answered by \<^verbatim>\<open>c.JSON\<close> with status 404 and the
  standard not-found body, one with code 405 with status 405 and the standard
  method-not-allowed body, whatever message the error carries; on a response not committed
  before, these are the status and the body written.
\<close>

theorem not_found_and_method_not_allowed:
  "httpErrorHandler d s (HTTPError 404 message) c
     = (ctx_JSON d 404 (JErrorResponse (errors_NotFound d [])) c, [])
   \<and> httpErrorHandler d s (HTTPError 405 message) c
     = (ctx_JSON d 405 (JErrorResponse (errors_MethodNotAllowed d [])) c, [])
   \<and> (\<not> Committed c \<longrightarrow>
        Status (fst (httpErrorHandler d s (HTTPError 404 message) c)) = 404
      \<and> Body (fst (httpErrorHandler d s (HTTPError 404 message) c))
          = Body c @ marshal d (JErrorResponse (errors_NotFound d []))
      \<and> Status (fst (httpErrorHandler d s (HTTPError 405 message) c)) = 405
      \<and> Body (fst (httpErrorHandler d s (HTTPError 405 message) c))
          = Body c @ marshal d (JErrorResponse (errors_MethodNotAllowed d [])))"
  by (simp add: httpErrorHandler_def ctx_JSON_uncommitted)

theorem not_found_and_method_not_allowed_witness:
  "\<not> Committed fresh_response
   \<and> Status (fst (httpErrorHandler sample_deps debug_server (HTTPError 404 ''no such route'') fresh_response)) = 404
   \<and> Body (fst (httpErrorHandler sample_deps debug_server (HTTPError 404 ''no such route'') fresh_response))
        = ''{not found}''
   \<and> Status (fst (httpErrorHandler sample_deps debug_server (HTTPError 405 ''no such route'') fresh_response)) = 405
   \<and> Body (fst (httpErrorHandler sample_deps debug_server (HTTPError 405 ''no such route'') fresh_response))
        = ''{method not allowed}''"
proof -
  have fresh: "\<not> Committed fresh_response" "Body fresh_response = []"
    by (simp_all add: fresh_response_def)
  have enc: "marshal sample_deps (JErrorResponse (errors_NotFound sample_deps [])) = ''{not found}''"
    "marshal sample_deps (JErrorResponse (errors_MethodNotAllowed sample_deps []))
       = ''{method not allowed}''"
    by (simp_all add: sample_deps_def)
  from not_found_and_method_not_allowed
         [of sample_deps debug_server "''no such route''" fresh_response]
  have "\<not> Committed fresh_response \<longrightarrow>
        Status (fst (httpErrorHandler sample_deps debug_server (HTTPError 404 ''no such route'') fresh_response)) = 404
      \<and> Body (fst (httpErrorHandler sample_deps debug_server (HTTPError 404 ''no such route'') fresh_response))
          = Body fresh_response @ marshal sample_deps (JErrorResponse (errors_NotFound sample_deps []))
      \<and> Status (fst (httpErrorHandler sample_deps debug_server (HTTPError 405 ''no such route'') fresh_response)) = 405
      \<and> Body (fst (httpErrorHandler sample_deps debug_server (HTTPError 405 ''no such route'') fresh_response))
          = Body fresh_response @ marshal sample_deps (JErrorResponse (errors_MethodNotAllowed sample_deps []))"
    by blast
  with fresh enc show ?thesis by simp
qed

section \<open>The stats endpoint\<close>

lemma json_run_append:
  "json_run (a @ b) st = (case json_run a st of None \<Rightarrow> None | Some st' \<Rightarrow> json_run b st')"
  by (induction a arbitrary: st) (simp_all split: option.splits)

lemma append_not_single: "s \<noteq> [] \<Longrightarrow> K \<noteq> [] \<Longrightarrow> s @ K \<noteq> [x]"
  by (cases s; cases K) simp_all

lemma after_value_ctx:
  assumes "after_value s cu ks c = Some (m', s', cu', ks')"
  shows "after_value (s @ K) cu0 ks0 c = Some (m', s' @ K, cu0, ks0) \<and> \<not> needs_object m' \<or>
         after_value (s @ K) cu0 ks0 c = Some (m', s' @ K, cu0, ks0) \<and> s' \<noteq> []"
  using assms by (auto split: if_splits list.splits json_ctx.splits)

lemma begin_value_ctx:
  assumes "begin_value s cu ks c = Some (m', s', cu', ks')"
  shows "(\<exists>cu''. begin_value (s @ K) cu0 ks0 c = Some (m', s' @ K, cu'', ks0))
       \<and> (needs_object m' \<longrightarrow> s' \<noteq> [])"
  using assms by (auto split: if_splits)

lemma step_ctx:
  assumes "json_step (m, s, cu, ks) c = Some (m', s', cu', ks')"
    and "needs_object m \<longrightarrow> s \<noteq> []" and "K \<noteq> []"
  shows "(\<exists>cu''. json_step (m, s @ K, cu0, ks0) c = Some (m', s' @ K, cu'', ks0))
       \<and> (needs_object m' \<longrightarrow> s' \<noteq> [])"
proof (cases m)
  case ExpectValue
  with assms begin_value_ctx [of s cu ks c m' s' cu' ks' K cu0 ks0] show ?thesis
    by (auto split: if_splits)
next
  case ExpectValueOrEnd
  with assms begin_value_ctx [of s cu ks c m' s' cu' ks' K cu0 ks0] show ?thesis
    by (auto split: if_splits list.splits json_ctx.splits)
next
  case ExpectKeyOrEnd
  with assms show ?thesis
    by (auto split: if_splits list.splits json_ctx.splits)
next
  case ExpectKey
  with assms show ?thesis by (auto split: if_splits)
next
  case ExpectColon
  with assms show ?thesis by (auto split: if_splits)
next
  case AfterValue
  with assms after_value_ctx [of s cu ks c m' s' cu' ks' K cu0 ks0] show ?thesis
    by auto
next
  case (InString key)
  with assms show ?thesis
    by (auto split: if_splits simp: append_not_single)
next
  case (InEscape key)
  with assms show ?thesis by (auto split: if_splits option.splits)
next
  case (InHex key n acc)
  with assms show ?thesis by (auto split: if_splits option.splits)
next
  case (InLiteral rest)
  with assms show ?thesis by (auto split: if_splits list.splits)
next
  case NumMinus
  with assms show ?thesis by (auto split: if_splits)
next
  case NumZero
  with assms after_value_ctx [of s cu ks c m' s' cu' ks' K cu0 ks0] show ?thesis
    by (auto split: if_splits)
next
  case NumInt
  with assms after_value_ctx [of s cu ks c m' s' cu' ks' K cu0 ks0] show ?thesis
    by (auto split: if_splits)
next
  case NumDot
  with assms show ?thesis by (auto split: if_splits)
next
  case NumFrac
  with assms after_value_ctx [of s cu ks c m' s' cu' ks' K cu0 ks0] show ?thesis
    by (auto split: if_splits)
next
  case NumE
  with assms show ?thesis by (auto split: if_splits)
next
  case NumESign
  with assms show ?thesis by (auto split: if_splits)
next
  case NumExp
  with assms after_value_ctx [of s cu ks c m' s' cu' ks' K cu0 ks0] show ?thesis
    by (auto split: if_splits)
qed

lemma run_ctx:
  assumes "json_run v (m, s, cu, ks) = Some (m', s', cu', ks')"
    and "needs_object m \<longrightarrow> s \<noteq> []" and "K \<noteq> []"
  shows "\<exists>cu''. json_run v (m, s @ K, cu0, ks0) = Some (m', s' @ K, cu'', ks0)"
  using assms
proof (induction v arbitrary: m s cu ks cu0)
  case Nil
  then show ?case by simp
next
  case (Cons c v)
  from Cons.prems(1) obtain m1 s1 cu1 ks1 where
    st: "json_step (m, s, cu, ks) c = Some (m1, s1, cu1, ks1)"
    and rest: "json_run v (m1, s1, cu1, ks1) = Some (m', s', cu', ks')"
    by (auto split: option.splits)
  from step_ctx [OF st Cons.prems(2) Cons.prems(3), of cu0 ks0] obtain cu2 where
    st': "json_step (m, s @ K, cu0, ks0) c = Some (m1, s1 @ K, cu2, ks0)"
    and inv: "needs_object m1 \<longrightarrow> s1 \<noteq> []"
    by blast
  from Cons.IH [OF rest inv Cons.prems(3), of cu2] obtain cu3 where
    "json_run v (m1, s1 @ K, cu2, ks0) = Some (m', s' @ K, cu3, ks0)"
    by blast
  with st' show ?case by simp
qed

lemma value_in_object:
  assumes "is_json_value v"
  shows "\<exists>m' cu'. json_run v (ExpectValue, [InObject], cu, ks) = Some (m', [InObject], cu', ks)
           \<and> complete_mode m'"
proof -
  from assms obtain m' cu' ks' where
    run: "json_run v (ExpectValue, [], [], []) = Some (m', [], cu', ks')" and cm: "complete_mode m'"
    by (auto simp: is_json_value_def json_start_def split: option.splits)
  from run_ctx [OF run, of "[InObject]" cu ks] cm show ?thesis by auto
qed


lemma quote_byte_run:
  assumes "32 \<le> (of_char c :: nat)" and "(of_char c :: nat) \<le> 126"
  shows "json_run (quote_byte c @ rest) (InString True, s, cu, ks)
           = json_run rest (InString True, s, cu @ [Byte c], ks)"
proof -
  consider "c = CHR 0x22" | "c = CHR 0x5C" | "c \<noteq> CHR 0x22" "c \<noteq> CHR 0x5C" by blast
  then show ?thesis
  proof cases
    case 1
    then show ?thesis by (simp add: quote_byte_def unescape_def)
  next
    case 2
    then show ?thesis by (simp add: quote_byte_def unescape_def)
  next
    case 3
    with assms show ?thesis by (simp add: quote_byte_def Let_def)
  qed
qed

lemma quote_body_run:
  "printable_ascii k \<Longrightarrow>
     json_run (concat (map quote_byte k) @ rest) (InString True, s, cu, ks)
       = json_run rest (InString True, s, cu @ map Byte k, ks)"
  by (induction k arbitrary: cu) (simp_all add: printable_ascii_def quote_byte_run)

lemma quote_run:
  assumes "printable_ascii k" and "m = ExpectKey \<or> m = ExpectKeyOrEnd"
  shows "json_run (strconv_Quote k @ rest) (m, [InObject], cu, ks)
           = json_run rest (ExpectColon, [InObject], map Byte k, ks @ [map Byte k])"
  using assms quote_body_run [of k "CHR 0x22 # rest" "[InObject]" "[]" ks]
  by (auto simp: strconv_Quote_def is_ws_def)


lemma value_run:
  assumes "is_json_value v"
  shows "\<exists>m' cu'. json_run (v @ rest) (ExpectValue, [InObject], cu, ks)
                     = json_run rest (m', [InObject], cu', ks) \<and> complete_mode m'"
proof -
  from value_in_object [OF assms, of cu ks] obtain m' cu' where
    "json_run v (ExpectValue, [InObject], cu, ks) = Some (m', [InObject], cu', ks)"
    and "complete_mode m'"
    by blast
  then show ?thesis by (auto simp: json_run_append)
qed

lemma entry_run:
  assumes "printable_ascii k" and "is_json_value v" and "m = ExpectKey \<or> m = ExpectKeyOrEnd"
  shows "\<exists>m' cu'. json_run ((strconv_Quote k @ '': '' @ v) @ rest) (m, [InObject], cu, ks)
                     = json_run rest (m', [InObject], cu', ks @ [map Byte k]) \<and> complete_mode m'"
proof -
  have "json_run ((strconv_Quote k @ '': '' @ v) @ rest) (m, [InObject], cu, ks)
          = json_run (v @ rest) (ExpectValue, [InObject], map Byte k, ks @ [map Byte k])"
    using quote_run [OF assms(1) assms(3), of "'': '' @ v @ rest" cu ks]
    by (simp add: is_ws_def)
  with value_run [OF assms(2), of rest "map Byte k" "ks @ [map Byte k]"] show ?thesis
    by auto
qed

lemma comma_run:
  assumes "complete_mode m"
  shows "json_run (('','' @ LF) @ rest) (m, [InObject], cu, ks)
           = json_run rest (ExpectKey, [InObject], cu, ks)"
  using assms by (cases m) (simp_all add: LF_def is_ws_def is_digit_def)

lemma close_run:
  assumes "complete_mode m"
  shows "json_run (LF @ ''}'' @ LF) (m, [InObject], cu, ks) = Some (AfterValue, [], cu, ks)"
  using assms by (cases m) (simp_all add: LF_def is_ws_def is_digit_def)

lemma entries_run:
  assumes "kvs \<noteq> []" and "list_all well_formed_entry kvs" and "m = ExpectKey \<or> m = ExpectKeyOrEnd"
  shows "\<exists>m' cu'. json_run (join ('','' @ LF) (stats_entries strconv_Quote kvs) @ rest)
                       (m, [InObject], cu, ks)
                     = json_run rest (m', [InObject], cu', ks @ map (\<lambda>kv. map Byte (fst kv)) kvs)
                   \<and> complete_mode m'"
  using assms
proof (induction kvs arbitrary: m cu ks rule: list_nonempty_induct)
  case (single kv)
  then show ?case
    using entry_run [of "fst kv" "snd kv" m rest cu ks]
    by (simp add: stats_entries_def well_formed_entry_def)
next
  case (cons kv kvs)
  from cons.hyps obtain kv' kvs' where kvs: "kvs = kv' # kvs'" by (cases kvs) auto
  from cons.prems have this_good: "well_formed_entry kv" and rest_good: "list_all well_formed_entry kvs"
    by simp_all
  from this_good have good: "printable_ascii (fst kv)" "is_json_value (snd kv)"
    by (simp_all add: well_formed_entry_def)
  have split: "join ('','' @ LF) (stats_entries strconv_Quote (kv # kvs)) @ rest
      = (strconv_Quote (fst kv) @ '': '' @ snd kv)
        @ (('','' @ LF) @ (join ('','' @ LF) (stats_entries strconv_Quote kvs) @ rest))"
    by (simp add: kvs stats_entries_def)
  from entry_run [OF good cons.prems(2),
      of "('','' @ LF) @ (join ('','' @ LF) (stats_entries strconv_Quote kvs) @ rest)" cu ks]
  obtain m1 cu1 where
    1: "json_run (join ('','' @ LF) (stats_entries strconv_Quote (kv # kvs)) @ rest)
          (m, [InObject], cu, ks)
        = json_run (('','' @ LF) @ (join ('','' @ LF) (stats_entries strconv_Quote kvs) @ rest))
            (m1, [InObject], cu1, ks @ [map Byte (fst kv)])"
    and cm: "complete_mode m1"
    unfolding split by blast
  from comma_run [OF cm] have
    2: "json_run (('','' @ LF) @ (join ('','' @ LF) (stats_entries strconv_Quote kvs) @ rest))
            (m1, [InObject], cu1, ks @ [map Byte (fst kv)])
        = json_run (join ('','' @ LF) (stats_entries strconv_Quote kvs) @ rest)
            (ExpectKey, [InObject], cu1, ks @ [map Byte (fst kv)])"
    by blast
  from cons.IH [OF rest_good, of ExpectKey cu1 "ks @ [map Byte (fst kv)]"] obtain m2 cu2 where
    3: "json_run (join ('','' @ LF) (stats_entries strconv_Quote kvs) @ rest)
            (ExpectKey, [InObject], cu1, ks @ [map Byte (fst kv)])
        = json_run rest (m2, [InObject], cu2,
            (ks @ [map Byte (fst kv)]) @ map (\<lambda>kv. map Byte (fst kv)) kvs)"
    and cm2: "complete_mode m2"
    by blast
  from 1 2 3 cm2 show ?case by auto
qed

lemma stats_text_run:
  assumes "list_all well_formed_entry registry"
  shows "\<exists>cu. json_run (stats_text strconv_Quote registry) json_start
           = Some (AfterValue, [], cu, map (\<lambda>kv. map Byte (fst kv)) registry)"
proof (cases registry)
  case Nil
  then show ?thesis
    by (simp add: stats_text_def stats_entries_def json_start_def LF_def is_ws_def)
next
  case (Cons kv kvs)
  then have ne: "registry \<noteq> []" by simp
  have open_run: "json_run (stats_text strconv_Quote registry) json_start
      = json_run (join ('','' @ LF) (stats_entries strconv_Quote registry) @ (LF @ ''}'' @ LF))
          (ExpectKeyOrEnd, [InObject], [], [])"
    by (simp add: stats_text_def json_start_def LF_def is_ws_def)
  from entries_run [OF ne assms, of ExpectKeyOrEnd "LF @ ''}'' @ LF" "[]" "[]"] obtain m' cu' where
    "json_run (join ('','' @ LF) (stats_entries strconv_Quote registry) @ (LF @ ''}'' @ LF))
          (ExpectKeyOrEnd, [InObject], [], [])
      = json_run (LF @ ''}'' @ LF) (m', [InObject], cu', map (\<lambda>kv. map Byte (fst kv)) registry)"
    and "complete_mode m'"
    by auto
  with open_run close_run [of m' cu' "map (\<lambda>kv. map Byte (fst kv)) registry"] show ?thesis
    by auto
qed

lemma stats_text_keys:
  assumes "list_all well_formed_entry registry"
  shows "json_object_keys (stats_text strconv_Quote registry)
           = Some (map (\<lambda>kv. map Byte (fst kv)) registry)"
proof -
  have first: "dropWhile is_ws (stats_text strconv_Quote registry)
      = stats_text strconv_Quote registry"
    by (simp add: stats_text_def is_ws_def)
  have hd: "\<exists>cs. stats_text strconv_Quote registry = CHR ''{'' # cs"
    by (simp add: stats_text_def)
  from stats_text_run [OF assms] hd first show ?thesis
    by (auto simp: json_object_keys_def)
qed

lemma stats_loop_later:
  "Committed w \<Longrightarrow> Status w = 200 \<Longrightarrow>
     snd (stats_loop quote kvs (False, w))
       = w\<lparr>Body := Body w @ concat (map (\<lambda>kv. '','' @ LF @ quote (fst kv) @ '': '' @ snd kv) kvs)\<rparr>"
  by (induction kvs arbitrary: w) (simp_all add: Let_def Write_ok)

lemma join_Cons_concat:
  "join sep (x # map f kvs) = x @ concat (map (\<lambda>kv. sep @ f kv) kvs)"
  by (induction kvs arbitrary: x) simp_all

lemma stats_loop_first:
  "Committed w \<Longrightarrow> Status w = 200 \<Longrightarrow>
     snd (stats_loop quote kvs (True, w))
       = w\<lparr>Body := Body w @ join ('','' @ LF) (stats_entries quote kvs)\<rparr>"
proof (cases kvs)
  case Nil
  then show ?thesis by (simp add: stats_entries_def)
next
  case (Cons kv rest)
  assume "Committed w" "Status w = 200"
  with Cons show ?thesis
    by (simp add: Let_def stats_loop_later Write_ok stats_entries_def join_Cons_concat)
qed

lemma stats_loop_Header:
  "Header (snd (stats_loop quote kvs (first, w))) = Header w"
  by (induction kvs arbitrary: first w) (simp_all add: Let_def Header_Write)

lemma statsHandler_uncommitted:
  assumes "\<not> Committed c"
  shows "snd (statsHandler quote registry c)
     = c\<lparr>Header := (Header c)(''Content-Type'' \<mapsto> ''application/json; charset=utf-8''),
          Status := 200, Committed := True,
          Body := Body c @ stats_text quote registry\<rparr>"
proof -
  let ?w0 = "Header_Set ''Content-Type'' ''application/json; charset=utf-8'' c"
  let ?w1 = "Write (''{'' @ LF) ?w0"
  from assms have w1: "?w1 = ?w0\<lparr>Status := 200, Committed := True, Body := Body c @ ''{'' @ LF\<rparr>"
    by (simp add: Write_uncommitted Header_Set_fields)
  then have ok: "Committed ?w1" "Status ?w1 = 200" by simp_all
  have "snd (statsHandler quote registry c)
      = Write (LF @ ''}'' @ LF) (snd (stats_loop quote registry (True, ?w1)))"
    by (simp add: statsHandler_def Let_def split_beta)
  also have "\<dots> = Write (LF @ ''}'' @ LF)
      (?w1\<lparr>Body := Body ?w1 @ join ('','' @ LF) (stats_entries quote registry)\<rparr>)"
    by (simp only: stats_loop_first [OF ok])
  finally show ?thesis
    using ok w1 by (simp add: Write_ok stats_text_def Header_Set_def)
qed

text \<open>
  Claim C7 as amended: for a registry of N published variables whose names are printable
  ASCII and whose values print as JSON values, the stats handler writes a single JSON
  object with exactly N top-level keys, the registered names in the order of the registry;
  the text is an opening brace, one entry \<^verbatim>\<open>%q\<close>-quoted name, colon, space and value for
  each variable, joined by a comma and a line feed, then a closing brace, and it ends in
  a line feed; the content type is \<^verbatim>\<open>application/json; charset=utf-8\<close> and the status 200.
\<close>

theorem stats_json_object:
  assumes "list_all well_formed_entry registry"
  shows "json_object_keys (Body (snd (statsHandler strconv_Quote registry fresh_response)))
           = Some (map (\<lambda>kv. map Byte (fst kv)) registry)
       \<and> map_option length
           (json_object_keys (Body (snd (statsHandler strconv_Quote registry fresh_response))))
           = Some (length registry)
       \<and> Body (snd (statsHandler strconv_Quote registry fresh_response))
           = ''{'' @ LF
             @ join ('','' @ LF) (map (\<lambda>kv. strconv_Quote (fst kv) @ '': '' @ snd kv) registry)
             @ LF @ ''}'' @ LF
       \<and> last (Body (snd (statsHandler strconv_Quote registry fresh_response))) = CHR 0x0A
       \<and> Header (snd (statsHandler strconv_Quote registry fresh_response)) ''Content-Type''
           = Some ''application/json; charset=utf-8''
       \<and> Status (snd (statsHandler strconv_Quote registry fresh_response)) = 200"
proof -
  have fresh: "\<not> Committed fresh_response" "Body fresh_response = []"
    by (simp_all add: fresh_response_def)
  have body: "Body (snd (statsHandler strconv_Quote registry fresh_response))
      = stats_text strconv_Quote registry"
    by (simp add: statsHandler_uncommitted [OF fresh(1)] fresh(2))
  have keys: "json_object_keys (stats_text strconv_Quote registry)
      = Some (map (\<lambda>kv. map Byte (fst kv)) registry)"
    by (rule stats_text_keys [OF assms])
  have layout: "stats_text strconv_Quote registry
      = ''{'' @ LF
        @ join ('','' @ LF) (map (\<lambda>kv. strconv_Quote (fst kv) @ '': '' @ snd kv) registry)
        @ LF @ ''}'' @ LF"
    by (simp add: stats_text_def stats_entries_def)
  have lst: "last (stats_text strconv_Quote registry) = CHR 0x0A"
    by (simp add: stats_text_def LF_def)
  have rest: "Header (snd (statsHandler strconv_Quote registry fresh_response)) ''Content-Type''
           = Some ''application/json; charset=utf-8''"
    "Status (snd (statsHandler strconv_Quote registry fresh_response)) = 200"
    by (simp_all add: statsHandler_uncommitted [OF fresh(1)])
  from keys layout lst rest show ?thesis
    unfolding body by simp
qed

theorem stats_json_object_witness:
  "list_all well_formed_entry sample_registry
   \<and> json_object_keys (Body (snd (statsHandler strconv_Quote sample_registry fresh_response)))
       = Some [map Byte ''requests'', map Byte (''cmd'' @ [CHR 0x22] @ ''line''),
               map Byte ''memstats'']
   \<and> map_option length
       (json_object_keys (Body (snd (statsHandler strconv_Quote sample_registry fresh_response))))
       = Some 3"
proof -
  have wf: "list_all well_formed_entry sample_registry"
    by (simp add: sample_registry_def well_formed_entry_def printable_ascii_def is_json_value_def
        json_start_def is_ws_def is_digit_def)
  have names: "map (\<lambda>kv. map Byte (fst kv)) sample_registry
      = [map Byte ''requests'', map Byte (''cmd'' @ [CHR 0x22] @ ''line''), map Byte ''memstats'']"
    and len: "length sample_registry = 3"
    by (simp_all add: sample_registry_def)
  from stats_json_object [OF wf] have
    "json_object_keys (Body (snd (statsHandler strconv_Quote sample_registry fresh_response)))
       = Some (map (\<lambda>kv. map Byte (fst kv)) sample_registry)"
    and "map_option length
       (json_object_keys (Body (snd (statsHandler strconv_Quote sample_registry fresh_response))))
       = Some (length sample_registry)"
    by blast+
  with wf names len show ?thesis by simp
qed

text \<open>
  Claim C7 as stated fails: for a registry whose one variable has the name of the single
  control character \<open>0x01\<close> and the value \<^verbatim>\<open>1\<close>, the name is written as the Go literal
  \<^verbatim>\<open>"\x01"\<close>, which is no JSON string, and the text written is no JSON object.
\<close>

theorem stats_control_name_counterexample:
  "Body (snd (statsHandler strconv_Quote control_registry fresh_response))
     = ''{'' @ LF @ [CHR 0x22, CHR 0x5C] @ ''x01'' @ [CHR 0x22] @ '': 1'' @ LF @ ''}'' @ LF
   \<and> is_json_value ''1''
   \<and> \<not> is_json_value (strconv_Quote [CHR 0x01])
   \<and> \<not> is_json_value (Body (snd (statsHandler strconv_Quote control_registry fresh_response)))
   \<and> json_object_keys (Body (snd (statsHandler strconv_Quote control_registry fresh_response)))
       = None"
proof -
  have fresh: "\<not> Committed fresh_response" "Body fresh_response = []"
    by (simp_all add: fresh_response_def)
  have q: "strconv_Quote [CHR 0x01] = [CHR 0x22, CHR 0x5C] @ ''x01'' @ [CHR 0x22]"
    by (simp add: strconv_Quote_def quote_byte_def hex_digits_def)
  have body: "Body (snd (statsHandler strconv_Quote control_registry fresh_response))
     = ''{'' @ LF @ [CHR 0x22, CHR 0x5C] @ ''x01'' @ [CHR 0x22] @ '': 1'' @ LF @ ''}'' @ LF"
    by (simp add: statsHandler_uncommitted [OF fresh(1)] fresh(2) stats_text_def stats_entries_def
        control_registry_def q)
  have v: "is_json_value ''1''"
    by (simp add: is_json_value_def json_start_def is_ws_def is_digit_def)
  have nq: "\<not> is_json_value (strconv_Quote [CHR 0x01])"
    by (simp add: q is_json_value_def json_start_def is_ws_def is_digit_def unescape_def)
  have nb: "\<not> is_json_value (Body (snd (statsHandler strconv_Quote control_registry fresh_response)))"
    by (simp add: body LF_def is_json_value_def json_start_def is_ws_def is_digit_def unescape_def)
  have nk: "json_object_keys (Body (snd (statsHandler strconv_Quote control_registry fresh_response)))
       = None"
    by (simp add: body LF_def json_object_keys_def json_start_def is_ws_def is_digit_def unescape_def)
  from body v nq nb nk show ?thesis by blast
qed

text \<open>
  Claim C9: the stats handler returns a nil error for every registry and every response,
  so serving the stats route yields the handler's response and never enters the error
  translator (nothing is logged).
\<close>

theorem stats_never_fails:
  "fst (statsHandler quote registry c) = None
   \<and> serve_stats d s quote registry c = (snd (statsHandler quote registry c), [])"
proof -
  have "fst (statsHandler quote registry c :: ('a, 'b) go_error option \<times> Response) = None"
    by (simp add: statsHandler_def Let_def split_beta)
  then show ?thesis
    by (simp add: serve_stats_def handle_result_def statsHandler_def Let_def split_beta)
qed

section \<open>The log-level endpoint\<close>



section \<open>Lifecycle\<close>

text \<open>
  Claim C4 as amended: \<^verbatim>\<open>Stop\<close> after \<^verbatim>\<open>Start\<close> does not panic, sends the interrupt and hands
  the graceful server a grace period of five seconds, which replaces the configured
  timeout: the deadline the shutdown drains with is five seconds for every configuration.
\<close>

theorem stop_deadline_constant:
  "\<exists>s'. Stop (Start s) = Inr s'
      \<and> drain_deadline s' = Some (time_Second * 5)
      \<and> map_option g_interrupted (srv_g s') = Some True"
  by (simp add: Stop_def Start_def drain_deadline_def graceful_Stop_def)

text \<open>
  Claim C4 as stated fails: two configurations with timeouts of one second and of thirty
  seconds are stopped with the same deadline of five seconds, which for the first is not
  the configured timeout capped by five seconds.
\<close>

theorem stop_deadline_counterexample:
  "Timeout (sample_config time_Second None) \<noteq> Timeout (sample_config (30 * time_Second) None)
   \<and> map_sum id drain_deadline (Stop (Start (New (sample_config time_Second None))))
       = Inr (Some (5 * time_Second))
   \<and> map_sum id drain_deadline (Stop (Start (New (sample_config (30 * time_Second) None))))
       = Inr (Some (5 * time_Second))
   \<and> 5 * time_Second \<noteq> min (Timeout (sample_config time_Second None)) (5 * time_Second)"
  by (simp add: Stop_def Start_def New_def drain_deadline_def graceful_Stop_def
      sample_config_def time_Second_def Let_def)

section \<open>Stopping a server that was not started\<close>

lemma lifecycle_keeps_g_nil:
  "lifecycle ops s = Inr s' \<Longrightarrow> OpStart \<notin> set ops \<Longrightarrow> srv_g s = None \<Longrightarrow> srv_g s' = None"
proof (induction ops arbitrary: s)
  case Nil
  then show ?case by simp
next
  case (Cons x xs)
  show ?case
  proof (cases x)
    case OpStart
    with Cons.prems show ?thesis by simp
  next
    case (OpStartTest url)
    with Cons.prems Cons.IH [of "snd (StartTest url s)"] show ?thesis
      by (simp add: StartTest_def)
  next
    case OpStop
    with Cons.prems show ?thesis by (simp add: Stop_def)
  next
    case OpStopTest
    with Cons.prems Cons.IH show ?thesis
      by (auto simp: StopTest_def split: option.splits)
  qed
qed

lemma lifecycle_keeps_t_nil:
  "lifecycle ops s = Inr s' \<Longrightarrow> \<not> list_ex is_StartTest ops \<Longrightarrow> srv_t s = None
     \<Longrightarrow> srv_t s' = None"
proof (induction ops arbitrary: s)
  case Nil
  then show ?case by simp
next
  case (Cons x xs)
  show ?case
  proof (cases x)
    case OpStart
    with Cons.prems Cons.IH [of "Start s"] show ?thesis
      by (simp add: Start_def)
  next
    case (OpStartTest url)
    with Cons.prems show ?thesis by simp
  next
    case OpStop
    with Cons.prems Cons.IH show ?thesis
      by (auto simp: Stop_def split: option.splits)
  next
    case OpStopTest
    with Cons.prems show ?thesis by (simp add: StopTest_def)
  qed
qed

lemma New_pointers_nil: "srv_g (New config) = None" "srv_t (New config) = None"
  by (simp_all add: New_def Let_def)

text \<open>
  Claim C10: after any sequence of lifecycle calls on a new server that ran without a
  panic, \<^verbatim>\<open>Stop\<close> panics on a nil pointer if \<^verbatim>\<open>Start\<close> is not among the calls (also when
  \<^verbatim>\<open>StartTest\<close> is), and \<^verbatim>\<open>StopTest\<close> panics on a nil pointer if \<^verbatim>\<open>StartTest\<close> is not among
  them. The panic is the only report: neither operation returns an error value.
\<close>

theorem wrong_stop_panics:
  assumes "lifecycle ops (New config) = Inr s"
  shows "(OpStart \<notin> set ops \<longrightarrow> Stop s = Inl NilPointerDereference)
       \<and> (\<not> list_ex is_StartTest ops \<longrightarrow> StopTest s = Inl NilPointerDereference)"
proof (intro conjI impI)
  assume "OpStart \<notin> set ops"
  with assms have "srv_g s = None"
    by (rule lifecycle_keeps_g_nil) (rule New_pointers_nil)
  then show "Stop s = Inl NilPointerDereference" by (simp add: Stop_def)
next
  assume "\<not> list_ex is_StartTest ops"
  with assms have "srv_t s = None"
    by (rule lifecycle_keeps_t_nil) (rule New_pointers_nil)
  then show "StopTest s = Inl NilPointerDereference" by (simp add: StopTest_def)
qed

theorem wrong_stop_panics_witness:
  "lifecycle [OpStartTest ''http://127.0.0.1:4000''] (New (sample_config time_Second None))
     = Inr (snd (StartTest ''http://127.0.0.1:4000'' (New (sample_config time_Second None))))
   \<and> OpStart \<notin> set [OpStartTest ''http://127.0.0.1:4000'']
   \<and> Stop (snd (StartTest ''http://127.0.0.1:4000'' (New (sample_config time_Second None))))
       = Inl NilPointerDereference
   \<and> lifecycle [OpStart] (New (sample_config time_Second None))
       = Inr (Start (New (sample_config time_Second None)))
   \<and> \<not> list_ex is_StartTest [OpStart]
   \<and> StopTest (Start (New (sample_config time_Second None))) = Inl NilPointerDereference"
proof -
  have a: "lifecycle [OpStartTest ''http://127.0.0.1:4000''] (New (sample_config time_Second None))
     = Inr (snd (StartTest ''http://127.0.0.1:4000'' (New (sample_config time_Second None))))"
    by simp
  have b: "lifecycle [OpStart] (New (sample_config time_Second None))
       = Inr (Start (New (sample_config time_Second None)))"
    by simp
  have c: "OpStart \<notin> set [OpStartTest ''http://127.0.0.1:4000'']"
    "\<not> list_ex is_StartTest [OpStart]"
    by simp_all
  from wrong_stop_panics [OF a] wrong_stop_panics [OF b] a b c show ?thesis by blast
qed

end
